theory Spec2Isabelle
  imports Complex_Main
begin

section \<open>JavaScript numbers and values\<close>

text \<open>
  A JavaScript number is either finite or one of the three special values. Finite
  numbers are modelled as exact rationals: the rounding error and the overflow of
  binary floating point are outside this model, and the sign of zero is not kept
  (no divisor in the modelled code can be zero, so the sign is never observed).
\<close>

datatype jsnum = Fin rat | PosInf | NegInf | NaN

text \<open>The values the modelled functions receive: \<open>undefined\<close>, \<open>null\<close> or a number.\<close>

datatype jsval = Undefined | Null | Num jsnum

text \<open>\<open>Number.isFinite(x)\<close>\<close>

fun isFinite :: "jsnum \<Rightarrow> bool" where
  "isFinite (Fin x) = True"
| "isFinite PosInf = False"
| "isFinite NegInf = False"
| "isFinite NaN = False"

text \<open>Truthiness of a number (\<open>if (x)\<close>, \<open>!x\<close>): everything but \<open>0\<close> and \<open>NaN\<close>.\<close>

fun truthy_num :: "jsnum \<Rightarrow> bool" where
  "truthy_num (Fin x) = (x \<noteq> 0)"
| "truthy_num PosInf = True"
| "truthy_num NegInf = True"
| "truthy_num NaN = False"

fun truthy :: "jsval \<Rightarrow> bool" where
  "truthy Undefined = False"
| "truthy Null = False"
| "truthy (Num n) = truthy_num n"

text \<open>\<open>Number(value)\<close>\<close>

fun Number :: "jsval \<Rightarrow> jsnum" where
  "Number Undefined = NaN"
| "Number Null = Fin 0"
| "Number (Num n) = n"

fun jneg :: "jsnum \<Rightarrow> jsnum" where
  "jneg (Fin x) = Fin (- x)"
| "jneg PosInf = NegInf"
| "jneg NegInf = PosInf"
| "jneg NaN = NaN"

fun jadd :: "jsnum \<Rightarrow> jsnum \<Rightarrow> jsnum" where
  "jadd NaN _ = NaN"
| "jadd _ NaN = NaN"
| "jadd (Fin x) (Fin y) = Fin (x + y)"
| "jadd (Fin x) PosInf = PosInf"
| "jadd (Fin x) NegInf = NegInf"
| "jadd PosInf NegInf = NaN"
| "jadd PosInf _ = PosInf"
| "jadd NegInf PosInf = NaN"
| "jadd NegInf _ = NegInf"

definition jsub :: "jsnum \<Rightarrow> jsnum \<Rightarrow> jsnum" where
  "jsub a b = jadd a (jneg b)"

text \<open>An infinity with the sign of a non-zero rational.\<close>

definition signed_inf :: "rat \<Rightarrow> jsnum" where
  "signed_inf s = (if 0 < s then PosInf else NegInf)"

fun jmul :: "jsnum \<Rightarrow> jsnum \<Rightarrow> jsnum" where
  "jmul NaN _ = NaN"
| "jmul _ NaN = NaN"
| "jmul (Fin x) (Fin y) = Fin (x * y)"
| "jmul (Fin x) PosInf = (if x = 0 then NaN else signed_inf x)"
| "jmul (Fin x) NegInf = (if x = 0 then NaN else signed_inf (- x))"
| "jmul PosInf (Fin y) = (if y = 0 then NaN else signed_inf y)"
| "jmul NegInf (Fin y) = (if y = 0 then NaN else signed_inf (- y))"
| "jmul PosInf PosInf = PosInf"
| "jmul PosInf NegInf = NegInf"
| "jmul NegInf PosInf = NegInf"
| "jmul NegInf NegInf = PosInf"

text \<open>
  Division. A zero divisor is read as \<open>+0\<close>; the modelled code only divides by
  numbers it has tested to be truthy or positive.
\<close>

fun jdiv :: "jsnum \<Rightarrow> jsnum \<Rightarrow> jsnum" where
  "jdiv NaN _ = NaN"
| "jdiv _ NaN = NaN"
| "jdiv (Fin x) (Fin y) =
     (if y = 0 then (if x = 0 then NaN else signed_inf x) else Fin (x / y))"
| "jdiv (Fin x) PosInf = Fin 0"
| "jdiv (Fin x) NegInf = Fin 0"
| "jdiv PosInf (Fin y) = (if 0 \<le> y then PosInf else NegInf)"
| "jdiv NegInf (Fin y) = (if 0 \<le> y then NegInf else PosInf)"
| "jdiv PosInf _ = NaN"
| "jdiv NegInf _ = NaN"

text \<open>The comparisons \<open>a >= b\<close> and \<open>a <= b\<close>: false as soon as one side is \<open>NaN\<close>.\<close>

fun jge :: "jsnum \<Rightarrow> jsnum \<Rightarrow> bool" where
  "jge NaN _ = False"
| "jge _ NaN = False"
| "jge (Fin x) (Fin y) = (y \<le> x)"
| "jge PosInf _ = True"
| "jge _ NegInf = True"
| "jge (Fin x) PosInf = False"
| "jge NegInf _ = False"

definition jle :: "jsnum \<Rightarrow> jsnum \<Rightarrow> bool" where
  "jle a b = jge b a"

text \<open>
  \<open>x.toFixed(d)\<close> for a finite \<open>x\<close>: the decimal numeral with \<open>d\<close> fraction digits
  of the integer \<open>n\<close> for which \<open>n / 10^d\<close> is closest to \<open>|x|\<close>, the larger \<open>n\<close> on
  a tie, with the sign of \<open>x\<close>. The function gives the value of that numeral. (From
  \<open>10^21\<close> on \<open>toFixed\<close> prints the number itself; a floating-point number that
  large is an integer, which the rounding leaves as it is.)
\<close>

definition toFixed :: "nat \<Rightarrow> rat \<Rightarrow> rat" where
  "toFixed d x =
     (if x < 0 then - (of_int \<lfloor>- x * 10 ^ d + 1 / 2\<rfloor> / 10 ^ d)
      else of_int \<lfloor>x * 10 ^ d + 1 / 2\<rfloor> / 10 ^ d)"

text \<open>
  \<open>parseFloat(x.toFixed(d))\<close> and \<open>Number(x.toFixed(d))\<close>: a finite number is
  rounded, and \<open>NaN\<close> and the infinities print as \<open>"NaN"\<close>, \<open>"Infinity"\<close> and
  \<open>"-Infinity"\<close>, which both parsers read back as themselves.
\<close>

fun parseFloat_toFixed :: "nat \<Rightarrow> jsnum \<Rightarrow> jsnum" where
  "parseFloat_toFixed d (Fin x) = Fin (toFixed d x)"
| "parseFloat_toFixed d PosInf = PosInf"
| "parseFloat_toFixed d NegInf = NegInf"
| "parseFloat_toFixed d NaN = NaN"

section \<open>Price synthesizer (priceService.js)\<close>

text \<open>
  \<open>generateRandomPrice(minPrice, maxPrice)\<close>; the value of \<open>Math.random()\<close> is the
  first argument.
\<close>

definition generateRandomPrice :: "jsnum \<Rightarrow> jsnum \<Rightarrow> jsnum \<Rightarrow> jsnum" where
  "generateRandomPrice randomFactor minPrice maxPrice =
     (let range = jsub maxPrice minPrice
      in parseFloat_toFixed 4 (jadd minPrice (jmul range randomFactor)))"

text \<open>\<open>calculateChangePercentage(previousPrice, newPrice)\<close>\<close>

definition calculateChangePercentage :: "jsval \<Rightarrow> jsval \<Rightarrow> jsnum" where
  "calculateChangePercentage previousPrice newPrice =
     (let prev = Number previousPrice; next = Number newPrice
      in if \<not> isFinite prev \<or> jle prev (Fin 0) \<or> \<not> isFinite next then Fin 0
         else let change = jmul (jdiv (jsub next prev) prev) (Fin 100)
              in parseFloat_toFixed 2 change)"

section \<open>Errors and the table store\<close>

text \<open>The error object a store operation returns in its \<open>error\<close> field.\<close>

record store_error =
  err_message :: "string option"
  err_code :: "string option"
  err_details :: "string option"
  err_hint :: "string option"

text \<open>What a modelled function can throw.\<close>

datatype exn =
    Error string
  | RangeError string
  | ReferenceError string
  | StoreError store_error

datatype rate_source = Api | ApiBatch | Fallback | DailyUpdate

datatype trigger_source = Cron | Manual | ManualSingle

datatype run_status = Success | NoUpdates

type_synonym commodity_id = nat

text \<open>Times are milliseconds since the epoch; a date is the number of its day.\<close>

record exchange_rate_row =
  from_currency :: string
  to_currency :: string
  rate :: jsnum
  recorded_at :: int
  source :: rate_source

record commodity =
  c_id :: commodity_id
  c_name :: string
  c_symbol :: string
  c_is_active :: bool

record price_range_row =
  pr_commodity_id :: commodity_id
  min_price_zar :: jsval
  max_price_zar :: jsval
  min_price_usd :: jsval
  max_price_usd :: jsval
  pr_is_active :: bool
  updated_by :: "nat option"
  updated_at :: int

record current_price_row =
  cp_commodity_id :: commodity_id
  cp_price_zar :: jsnum
  cp_price_usd :: jsnum
  cp_exchange_rate :: jsnum
  change_24h_percent :: jsnum
  last_updated :: int

record price_history_row =
  ph_commodity_id :: commodity_id
  ph_price_zar :: jsnum
  ph_price_usd :: jsnum
  ph_exchange_rate :: jsnum
  recorded_date :: int

record price_update_run =
  executed_at :: int
  triggered_by :: "nat option"
  run_trigger_source :: trigger_source
  total_commodities :: nat
  updated_commodities :: nat
  status :: run_status
  run_notes :: "commodity_id option"

text \<open>
  Modelled from the spec: the table store behind the module \<open>supabase\<close>, which is
  not among the sources. Its operations are \<open>select\<close>, \<open>insert\<close> and \<open>upsert\<close>
  on a conflict key, each returning data or an error; obtaining the client does not
  throw. \<open>current_prices\<close> has one row per commodity (the conflict key of its
  upsert); \<open>price_ranges\<close> keeps its rows in a list and is upserted by commodity
  id; the other tables are appended to.
\<close>

record db =
  exchange_rates :: "exchange_rate_row list"
  commodities :: "commodity_id \<rightharpoonup> commodity"
  price_ranges :: "price_range_row list"
  current_prices :: "commodity_id \<rightharpoonup> current_price_row"
  price_history :: "price_history_row list"
  price_update_runs :: "price_update_run list"

text \<open>
  Everything outside the program that one call depends on: the clock, the answer of
  the rate provider, the values of \<open>Math.random()\<close>, and which store operations
  fail. A failing store operation returns its error and changes nothing.
  \<open>api_rates from to\<close> is \<open>None\<close> when the request fails and otherwise the value
  of \<open>response.data?.rates?.[to]\<close>.
\<close>

record env =
  now :: int
  api_rates :: "string \<Rightarrow> string \<Rightarrow> jsval option"
  cached_query_fails :: bool
  stale_query_fails :: bool
  save_rate_fails :: bool
  random_factor :: "commodity_id \<Rightarrow> jsnum"
  ranges_query_error :: "store_error option"
  current_read_fails :: "commodity_id \<Rightarrow> bool"
  current_upsert_error :: "commodity_id \<Rightarrow> store_error option"
  history_insert_error :: "commodity_id \<Rightarrow> store_error option"
  rate_log_fails :: bool
  run_insert_fails :: bool
  range_upsert_error :: "store_error option"

section \<open>Rate resolver (currencyService.js)\<close>

text \<open>The fields of the service object the resolver reads.\<close>

record config =
  fallbackRate :: jsnum
  fallbackBaseFrom :: string
  fallbackBaseTo :: string
  fallbackInversePrecision :: jsnum

text \<open>Strings are ASCII: \<open>trim\<close> removes the ASCII white space at both ends.\<close>

definition is_space :: "char \<Rightarrow> bool" where
  "is_space c = (c \<in> set [CHR '' '', CHR 0x09, CHR 0x0A, CHR 0x0B, CHR 0x0C, CHR 0x0D])"

definition trim :: "string \<Rightarrow> string" where
  "trim s = rev (dropWhile is_space (rev (dropWhile is_space s)))"

definition upper_char :: "char \<Rightarrow> char" where
  "upper_char c =
     (case map_of (zip ''abcdefghijklmnopqrstuvwxyz'' ''ABCDEFGHIJKLMNOPQRSTUVWXYZ'') c of
        None \<Rightarrow> c
      | Some u \<Rightarrow> u)"

definition toUpperCase :: "string \<Rightarrow> string" where
  "toUpperCase s = map upper_char s"

text \<open>\<open>normaliseCurrencyCode(code)\<close>; \<open>null\<close> and \<open>undefined\<close> are the empty string.\<close>

definition normaliseCurrencyCode :: "string \<Rightarrow> string" where
  "normaliseCurrencyCode code = toUpperCase (trim code)"

text \<open>The constructor with no environment variable set.\<close>

definition default_config :: config where
  "default_config =
     \<lparr>fallbackRate = Fin (54 / 1000),
      fallbackBaseFrom = normaliseCurrencyCode ''ZAR'',
      fallbackBaseTo = normaliseCurrencyCode ''USD'',
      fallbackInversePrecision = Fin 6\<rparr>"

text \<open>
  The digits argument of \<open>toFixed\<close>: truncated to an integer, and a \<open>RangeError\<close>
  outside \<open>0..100\<close>.
\<close>

fun toFixed_digits :: "jsnum \<Rightarrow> exn + nat" where
  "toFixed_digits (Fin p) =
     (let n = (if p < 0 then - \<lfloor>- p\<rfloor> else \<lfloor>p\<rfloor>)
      in if n < 0 \<or> 100 < n
         then Inl (RangeError ''toFixed() digits argument must be between 0 and 100'')
         else Inr (nat n))"
| "toFixed_digits NaN = Inr 0"
| "toFixed_digits _ =
     Inl (RangeError ''toFixed() digits argument must be between 0 and 100'')"

text \<open>\<open>resolveFallbackRate(fromCurrency, toCurrency)\<close>; \<open>None\<close> is \<open>null\<close>.\<close>

definition resolveFallbackRate :: "config \<Rightarrow> string \<Rightarrow> string \<Rightarrow> exn + jsnum option" where
  "resolveFallbackRate cfg fromCurrency toCurrency =
     (if \<not> truthy_num (fallbackRate cfg) \<or> \<not> isFinite (fallbackRate cfg) then Inr None
      else let from = normaliseCurrencyCode fromCurrency;
               to = normaliseCurrencyCode toCurrency
           in if from = [] \<or> to = [] then Inr None
              else if from = to then Inr (Some (Fin 1))
              else if from = fallbackBaseFrom cfg \<and> to = fallbackBaseTo cfg
                then Inr (Some (fallbackRate cfg))
              else if from = fallbackBaseTo cfg \<and> to = fallbackBaseFrom cfg
                then let precision =
                           (if isFinite (fallbackInversePrecision cfg)
                               \<and> jge (fallbackInversePrecision cfg) (Fin 0)
                            then fallbackInversePrecision cfg else Fin 6)
                     in (case toFixed_digits precision of
                           Inl e \<Rightarrow> Inl e
                         | Inr d \<Rightarrow>
                             Inr (Some (parseFloat_toFixed d (jdiv (Fin 1) (fallbackRate cfg)))))
              else Inr None)"

text \<open>
  Modelled from the spec: the answer of \<open>select ... eq(from_currency)
  eq(to_currency) order(recorded_at, descending) limit(1)\<close>, the most recent row of
  the pair.
\<close>

fun newest :: "exchange_rate_row list \<Rightarrow> exchange_rate_row option" where
  "newest [] = None"
| "newest (r # rs) =
     (case newest rs of
        None \<Rightarrow> Some r
      | Some r' \<Rightarrow> if recorded_at r \<le> recorded_at r' then Some r' else Some r)"

definition latest_rate_row :: "db \<Rightarrow> string \<Rightarrow> string \<Rightarrow> exchange_rate_row option" where
  "latest_rate_row d from to =
     newest (filter (\<lambda>r. from_currency r = from \<and> to_currency r = to) (exchange_rates d))"

text \<open>\<open>getCachedExchangeRate(fromCurrency, toCurrency)\<close>; \<open>None\<close> is \<open>null\<close>.\<close>

definition getCachedExchangeRate :: "env \<Rightarrow> db \<Rightarrow> string \<Rightarrow> string \<Rightarrow> jsnum option" where
  "getCachedExchangeRate e d fromCurrency toCurrency =
     (let from = normaliseCurrencyCode fromCurrency;
          to = normaliseCurrencyCode toCurrency
      in if cached_query_fails e then None
         else (case latest_rate_row d from to of
                 None \<Rightarrow> None
               | Some cached \<Rightarrow>
                   let ageHours = (of_int (now e - recorded_at cached) :: rat) / (1000 * 60 * 60)
                   in if ageHours < 4 then Some (rate cached) else None))"

text \<open>\<open>fetchExchangeRateFromAPI(fromCurrency, toCurrency)\<close>; every failure is \<open>null\<close>.\<close>

definition fetchExchangeRateFromAPI :: "env \<Rightarrow> string \<Rightarrow> string \<Rightarrow> jsnum option" where
  "fetchExchangeRateFromAPI e fromCurrency toCurrency =
     (case api_rates e fromCurrency toCurrency of
        None \<Rightarrow> None
      | Some r \<Rightarrow> if truthy r then Some (Number r) else None)"

text \<open>
  \<open>saveExchangeRate(fromCurrency, toCurrency, rate, source)\<close>: the insert, whose
  failure is logged and swallowed. The store stamps the row with its clock.
\<close>

definition saveExchangeRate :: "env \<Rightarrow> db \<Rightarrow> string \<Rightarrow> string \<Rightarrow> jsnum \<Rightarrow> rate_source \<Rightarrow> db" where
  "saveExchangeRate e d fromCurrency toCurrency r src =
     (let from = normaliseCurrencyCode fromCurrency;
          to = normaliseCurrencyCode toCurrency
      in if save_rate_fails e then d
         else d\<lparr>exchange_rates := exchange_rates d @
                  [\<lparr>from_currency = from, to_currency = to, rate = r,
                    recorded_at = now e, source = src\<rparr>]\<rparr>)"

text \<open>\<open>a ?? b\<close> on the result of \<open>resolveFallbackRate\<close>.\<close>

definition nullish :: "jsnum option \<Rightarrow> jsnum \<Rightarrow> jsnum" where
  "nullish a b = (case a of None \<Rightarrow> b | Some x \<Rightarrow> x)"

text \<open>The \<open>try\<close> block of \<open>getCurrencyRate\<close>, on the normalised codes.\<close>

definition getCurrencyRate_try :: "config \<Rightarrow> env \<Rightarrow> db \<Rightarrow> string \<Rightarrow> string \<Rightarrow> (exn + jsnum) \<times> db" where
  "getCurrencyRate_try cfg e d from to =
     (if from = [] \<or> to = [] then (Inl (Error ''Invalid currency codes supplied''), d)
      else if from = to then (Inr (Fin 1), d)
      else let cachedRate = getCachedExchangeRate e d from to
       in if (case cachedRate of None \<Rightarrow> False | Some c \<Rightarrow> truthy_num c) then (Inr (the cachedRate), d)
      else let apiRate = fetchExchangeRateFromAPI e from to
       in if (case apiRate of None \<Rightarrow> False | Some a \<Rightarrow> truthy_num a)
          then (Inr (the apiRate), saveExchangeRate e d from to (the apiRate) Api)
      else let data = (if stale_query_fails e then None else latest_rate_row d from to)
       in if data \<noteq> None then (Inr (rate (the data)), d)
      else (case resolveFallbackRate cfg from to of
              Inl err \<Rightarrow> (Inl err, d)
            | Inr resolved \<Rightarrow>
                let fallbackResolved = nullish resolved (fallbackRate cfg)
                in if \<not> truthy_num fallbackResolved \<or> \<not> isFinite fallbackResolved
                   then (Inl (Error ''Fallback exchange rate unavailable''), d)
                   else (Inr fallbackResolved,
                         saveExchangeRate e d from to fallbackResolved Fallback)))"

text \<open>
  \<open>getCurrencyRate(fromCurrency, toCurrency)\<close>: the \<open>try\<close> block, and the \<open>catch\<close>
  block that answers every exception of it with the fallback value. An argument left
  out is \<open>'ZAR'\<close>, respectively \<open>'USD'\<close>, at the call.
\<close>

definition getCurrencyRate :: "config \<Rightarrow> env \<Rightarrow> db \<Rightarrow> string \<Rightarrow> string \<Rightarrow> (exn + jsnum) \<times> db" where
  "getCurrencyRate cfg e d fromCurrency toCurrency =
     (let from = normaliseCurrencyCode fromCurrency;
          to = normaliseCurrencyCode toCurrency
      in (case getCurrencyRate_try cfg e d from to of
            (Inr r, d') \<Rightarrow> (Inr r, d')
          | (Inl err, d') \<Rightarrow>
              (case resolveFallbackRate cfg fromCurrency toCurrency of
                 Inl err' \<Rightarrow> (Inl err', d')
               | Inr resolved \<Rightarrow> (Inr (nullish resolved (fallbackRate cfg)), d'))))"

section \<open>Daily update orchestrator (priceService.js)\<close>

text \<open>The local function \<open>parseNumber(value)\<close>; \<open>None\<close> is \<open>undefined\<close>.\<close>

definition parseNumber :: "jsval \<Rightarrow> jsnum option" where
  "parseNumber v =
     (if v = Null \<or> v = Undefined then None
      else let numeric = Number v in if isFinite numeric then Some numeric else None)"

text \<open>\<open>getCurrentPriceRecord(commodityId)\<close>; an error of the read is \<open>null\<close>.\<close>

definition getCurrentPriceRecord :: "env \<Rightarrow> db \<Rightarrow> commodity_id \<Rightarrow> current_price_row option" where
  "getCurrentPriceRecord e d commodityId =
     (if current_read_fails e commodityId then None else current_prices d commodityId)"

text \<open>
  Modelled from the spec: the select on \<open>price_ranges\<close> with \<open>eq(is_active, true)\<close>
  and the inner join on \<open>commodities\<close>, which gives each active range with its
  commodity and leaves out the ranges without one.
\<close>

definition select_price_ranges :: "db \<Rightarrow> (price_range_row \<times> commodity) list" where
  "select_price_ranges d =
     List.map_filter
       (\<lambda>r. if pr_is_active r
             then (case commodities d (pr_commodity_id r) of
                     None \<Rightarrow> None
                   | Some c \<Rightarrow> Some (r, c))
             else None)
       (price_ranges d)"

record skipped_entry =
  sk_commodityId :: commodity_id
  sk_reason :: string
  sk_minUsd :: "jsnum option"
  sk_maxUsd :: "jsnum option"
  sk_minZar :: "jsnum option"
  sk_maxZar :: "jsnum option"

record failure_entry =
  f_commodityId :: commodity_id
  f_symbol :: "string option"
  f_message :: string
  f_code :: "string option"
  f_details :: "string option"
  f_hint :: "string option"

text \<open>The variables the per-commodity tasks share, and the store.\<close>

record cycle =
  updatedCount :: nat
  skipped :: "skipped_entry list"
  failures :: "failure_entry list"
  store :: db

text \<open>The object built in the \<open>catch\<close> block of a task.\<close>

definition friendlyError :: "price_range_row \<times> commodity \<Rightarrow> store_error \<Rightarrow> failure_entry" where
  "friendlyError rc err =
     \<lparr>f_commodityId = pr_commodity_id (fst rc),
      f_symbol = Some (c_symbol (snd rc)),
      f_message = (case err_message err of None \<Rightarrow> ''[object Object]'' | Some m \<Rightarrow> m),
      f_code = err_code err,
      f_details = err_details err,
      f_hint = err_hint err\<rparr>"

text \<open>
  The USD bounds of a range (lines 92 to 117): the USD pair when both are numbers,
  else the ZAR pair converted, else none.
\<close>

definition resolve_usd_bounds :: "jsnum \<Rightarrow> price_range_row \<Rightarrow> (jsnum \<times> jsnum) option" where
  "resolve_usd_bounds zarToUsdRate rng =
     (let minUsdRaw = parseNumber (min_price_usd rng);
          maxUsdRaw = parseNumber (max_price_usd rng);
          minZarRaw = parseNumber (min_price_zar rng);
          maxZarRaw = parseNumber (max_price_zar rng)
      in if minUsdRaw \<noteq> None \<and> maxUsdRaw \<noteq> None then Some (the minUsdRaw, the maxUsdRaw)
         else if minZarRaw \<noteq> None \<and> maxZarRaw \<noteq> None
           then Some (jmul (the minZarRaw) zarToUsdRate, jmul (the maxZarRaw) zarToUsdRate)
         else None)"

text \<open>\<open>currentRecord?.price_zar ? Number(currentRecord.price_zar) : null\<close>\<close>

definition previous_price_zar :: "current_price_row option \<Rightarrow> jsval" where
  "previous_price_zar currentRecord =
     (case currentRecord of
        None \<Rightarrow> Null
      | Some r \<Rightarrow> if truthy_num (cp_price_zar r) then Num (cp_price_zar r) else Null)"

text \<open>
  One task of the fan-out: the callback mapped over the active ranges. The source
  starts the tasks together and awaits them all; here they run one after the other
  in the order of the list. A task reads and writes only the rows of its own
  commodity, appends to \<open>price_history\<close> and pushes to the shared lists.
\<close>

definition update_range :: "env \<Rightarrow> jsnum \<Rightarrow> jsnum \<Rightarrow> price_range_row \<times> commodity \<Rightarrow> cycle \<Rightarrow> cycle" where
  "update_range e zarToUsdRate usdToZarRate rc s =
     (let rng = fst rc; commodityId = pr_commodity_id rng
      in (case resolve_usd_bounds zarToUsdRate rng of
            None \<Rightarrow>
              s\<lparr>skipped := skipped s @
                  [\<lparr>sk_commodityId = commodityId,
                    sk_reason = ''Incomplete price range values'',
                    sk_minUsd = parseNumber (min_price_usd rng),
                    sk_maxUsd = parseNumber (max_price_usd rng),
                    sk_minZar = parseNumber (min_price_zar rng),
                    sk_maxZar = parseNumber (max_price_zar rng)\<rparr>]\<rparr>
          | Some (minUsd, maxUsd) \<Rightarrow>
              let newPriceUsd = generateRandomPrice (random_factor e commodityId) minUsd maxUsd;
                  newPriceZar = parseFloat_toFixed 4 (jmul newPriceUsd usdToZarRate);
                  normalizedPriceUsd = parseFloat_toFixed 4 newPriceUsd;
                  currentRecord = getCurrentPriceRecord e (store s) commodityId;
                  previousPriceZar = previous_price_zar currentRecord;
                  change24hValue = calculateChangePercentage previousPriceZar (Num newPriceZar)
              in (case current_upsert_error e commodityId of
                    Some err \<Rightarrow> s\<lparr>failures := failures s @ [friendlyError rc err]\<rparr>
                  | None \<Rightarrow>
                      let d1 = (store s)\<lparr>current_prices := (current_prices (store s))
                                 (commodityId \<mapsto>
                                    \<lparr>cp_commodity_id = commodityId,
                                     cp_price_zar = newPriceZar,
                                     cp_price_usd = normalizedPriceUsd,
                                     cp_exchange_rate = zarToUsdRate,
                                     change_24h_percent = change24hValue,
                                     last_updated = now e\<rparr>)\<rparr>
                      in (case history_insert_error e commodityId of
                            Some err \<Rightarrow>
                              s\<lparr>failures := failures s @ [friendlyError rc err], store := d1\<rparr>
                          | None \<Rightarrow>
                              s\<lparr>updatedCount := updatedCount s + 1,
                                store := d1\<lparr>price_history := price_history d1 @
                                           [\<lparr>ph_commodity_id = commodityId,
                                             ph_price_zar = newPriceZar,
                                             ph_price_usd = normalizedPriceUsd,
                                             ph_exchange_rate = zarToUsdRate,
                                             recorded_date = now e div 86400000\<rparr>]\<rparr>\<rparr>))))"

text \<open>\<open>Promise.all(activeRanges.map(...))\<close>\<close>

fun update_ranges :: "env \<Rightarrow> jsnum \<Rightarrow> jsnum \<Rightarrow> (price_range_row \<times> commodity) list \<Rightarrow> cycle \<Rightarrow> cycle" where
  "update_ranges e zarToUsdRate usdToZarRate [] s = s"
| "update_ranges e zarToUsdRate usdToZarRate (rc # rcs) s =
     update_ranges e zarToUsdRate usdToZarRate rcs (update_range e zarToUsdRate usdToZarRate rc s)"

record update_result =
  success :: bool
  updated :: nat
  total :: nat
  res_skipped :: "skipped_entry list"
  res_failures :: "failure_entry list"

text \<open>The ranges the cycle works on: \<open>activeRanges\<close>.\<close>

definition activeRanges :: "db \<Rightarrow> (price_range_row \<times> commodity) list" where
  "activeRanges d = filter (\<lambda>rc. c_is_active (snd rc)) (select_price_ranges d)"

text \<open>\<open>updateDailyPrices({triggerSource, triggeredBy})\<close>\<close>

definition updateDailyPrices :: "config \<Rightarrow> env \<Rightarrow> db \<Rightarrow> trigger_source \<Rightarrow> nat option \<Rightarrow> (exn + update_result) \<times> db" where
  "updateDailyPrices cfg e d triggerSource triggeredBy =
     (case getCurrencyRate cfg e d ''ZAR'' ''USD'' of
        (Inl err, d0) \<Rightarrow> (Inl err, d0)
      | (Inr zarToUsdRate, d0) \<Rightarrow>
          if \<not> truthy_num zarToUsdRate then (Inl (Error ''Failed to load exchange rate''), d0)
          else let usdToZarRate = parseFloat_toFixed 6 (jdiv (Fin 1) zarToUsdRate)
           in (case ranges_query_error e of
                 Some rangeError \<Rightarrow> (Inl (StoreError rangeError), d0)
               | None \<Rightarrow>
                   let s = update_ranges e zarToUsdRate usdToZarRate (activeRanges d0)
                             \<lparr>updatedCount = 0, skipped = [], failures = [], store = d0\<rparr>;
                       d1 = store s;
                       d2 = (if rate_log_fails e then d1
                             else d1\<lparr>exchange_rates := exchange_rates d1 @
                                    [\<lparr>from_currency = ''ZAR'', to_currency = ''USD'',
                                      rate = zarToUsdRate, recorded_at = now e,
                                      source = DailyUpdate\<rparr>]\<rparr>);
                       d3 = (if run_insert_fails e then d2
                             else d2\<lparr>price_update_runs := price_update_runs d2 @
                                    [\<lparr>executed_at = now e,
                                      triggered_by = triggeredBy,
                                      run_trigger_source = triggerSource,
                                      total_commodities = length (activeRanges d0),
                                      updated_commodities = updatedCount s,
                                      status = (if 0 < updatedCount s then Success else NoUpdates),
                                      run_notes = None\<rparr>]\<rparr>)
                   in (Inr \<lparr>success = True,
                            updated = updatedCount s,
                            total = length (activeRanges d0),
                            res_skipped = skipped s,
                            res_failures = failures s\<rparr>, d3)))"

section \<open>Manual update and range editor (priceService.js)\<close>

record price_update_data =
  d_commodity_id :: commodity_id
  d_price_zar :: jsnum
  d_price_usd :: jsnum
  d_change_24h_percent :: jsnum
  d_exchange_rate :: jsnum

record price_update_result =
  pu_success :: bool
  pu_data :: price_update_data

text \<open>
  \<open>updateCommodityPrice(commodityId, {priceUsd, priceZar}, triggeredBy, triggerSource)\<close>.
  The object of the final \<open>return\<close> reads the identifier \<open>change24h\<close>, which is
  declared nowhere (the local is \<open>change24hValue\<close>): evaluating it throws a
  \<open>ReferenceError\<close>, which the \<open>catch\<close> block rethrows.
\<close>

definition updateCommodityPrice ::
  "config \<Rightarrow> env \<Rightarrow> db \<Rightarrow> commodity_id \<Rightarrow> jsval \<Rightarrow> jsval \<Rightarrow> nat option \<Rightarrow> trigger_source
     \<Rightarrow> (exn + price_update_result) \<times> db" where
  "updateCommodityPrice cfg e d commodityId pricesUsd pricesZar triggeredBy triggerSource =
     (case getCurrencyRate cfg e d ''ZAR'' ''USD'' of
        (Inl err, d0) \<Rightarrow> (Inl err, d0)
      | (Inr zarToUsdRate, d0) \<Rightarrow>
          if \<not> truthy_num zarToUsdRate then (Inl (Error ''Failed to load exchange rate''), d0)
          else let usdToZarRate = parseFloat_toFixed 6 (jdiv (Fin 1) zarToUsdRate);
                   priceUsd0 = parseNumber pricesUsd;
                   priceZar0 = parseNumber pricesZar
           in if priceUsd0 = None \<and> priceZar0 = None
              then (Inl (Error ''A price must be provided in USD or ZAR''), d0)
              else let priceUsd = (if priceUsd0 = None \<and> priceZar0 \<noteq> None
                                   then Some (parseFloat_toFixed 4 (jmul (the priceZar0) zarToUsdRate))
                                   else priceUsd0);
                       priceZar = (if priceZar0 = None \<and> priceUsd \<noteq> None
                                   then Some (parseFloat_toFixed 4 (jmul (the priceUsd) usdToZarRate))
                                   else priceZar0)
               in if priceUsd = None \<or> priceZar = None
                  then (Inl (Error ''Unable to resolve USD and ZAR price values''), d0)
                  else let normalizedUsd = parseFloat_toFixed 4 (the priceUsd);
                           normalizedZar = parseFloat_toFixed 4 (the priceZar);
                           currentRecord = getCurrentPriceRecord e d0 commodityId;
                           previousPriceZar = previous_price_zar currentRecord;
                           change24hValue = calculateChangePercentage previousPriceZar (Num normalizedZar)
                   in (case current_upsert_error e commodityId of
                         Some currentError \<Rightarrow> (Inl (StoreError currentError), d0)
                       | None \<Rightarrow>
                           let d1 = d0\<lparr>current_prices := (current_prices d0)
                                      (commodityId \<mapsto>
                                         \<lparr>cp_commodity_id = commodityId,
                                          cp_price_zar = normalizedZar,
                                          cp_price_usd = normalizedUsd,
                                          cp_exchange_rate = zarToUsdRate,
                                          change_24h_percent = change24hValue,
                                          last_updated = now e\<rparr>)\<rparr>
                           in (case history_insert_error e commodityId of
                                 Some historyError \<Rightarrow> (Inl (StoreError historyError), d1)
                               | None \<Rightarrow>
                                   let d2 = d1\<lparr>price_history := price_history d1 @
                                              [\<lparr>ph_commodity_id = commodityId,
                                                ph_price_zar = normalizedZar,
                                                ph_price_usd = normalizedUsd,
                                                ph_exchange_rate = zarToUsdRate,
                                                recorded_date = now e div 86400000\<rparr>]\<rparr>;
                                       d3 = (if run_insert_fails e then d2
                                             else d2\<lparr>price_update_runs := price_update_runs d2 @
                                                    [\<lparr>executed_at = now e,
                                                      triggered_by = triggeredBy,
                                                      run_trigger_source = triggerSource,
                                                      total_commodities = 1,
                                                      updated_commodities = 1,
                                                      status = Success,
                                                      run_notes = Some commodityId\<rparr>]\<rparr>)
                                   in (Inl (ReferenceError ''change24h is not defined''), d3))))"





section \<open>Notions of the specification\<close>

text \<open>A number that is finite and positive.\<close>

fun finite_positive :: "jsnum \<Rightarrow> bool" where
  "finite_positive (Fin x) = (0 < x)"
| "finite_positive _ = False"





text \<open>A bound of a price range that is present and finite.\<close>

fun present_finite :: "jsval \<Rightarrow> bool" where
  "present_finite (Num (Fin x)) = True"
| "present_finite _ = False"

text \<open>
  An incomplete bound pair, in the words of the specification: neither both USD
  bounds nor both ZAR bounds are finite.
\<close>

definition incomplete_bounds :: "price_range_row \<Rightarrow> bool" where
  "incomplete_bounds r =
     (\<not> (present_finite (min_price_usd r) \<and> present_finite (max_price_usd r))
      \<and> \<not> (present_finite (min_price_zar r) \<and> present_finite (max_price_zar r)))"

text \<open>
  The error of the persistence writes of one commodity: that of the upsert of its
  current price, else that of the insert of its history row.
\<close>

definition write_error :: "env \<Rightarrow> commodity_id \<Rightarrow> store_error option" where
  "write_error e c =
     (case current_upsert_error e c of
        Some err \<Rightarrow> Some err
      | None \<Rightarrow> history_insert_error e c)"

text \<open>A range whose task updates its commodity: complete bounds and no failing write.\<close>

definition task_updates :: "env \<Rightarrow> price_range_row \<times> commodity \<Rightarrow> bool" where
  "task_updates e rc =
     (\<not> incomplete_bounds (fst rc) \<and> write_error e (pr_commodity_id (fst rc)) = None)"

text \<open>The USD price a task draws for a commodity with the USD bounds given.\<close>

definition new_price_usd :: "env \<Rightarrow> commodity_id \<Rightarrow> jsnum \<times> jsnum \<Rightarrow> jsnum" where
  "new_price_usd e c bounds = generateRandomPrice (random_factor e c) (fst bounds) (snd bounds)"

text \<open>
  The update of a range is reflected in the store \<open>d'\<close> reached from \<open>d\<close> at the rate
  \<open>z\<close>: the current price of its commodity carries the new prices, the rate and the
  time, and a history row with the same prices is among the rows appended.
\<close>

definition reflected :: "env \<Rightarrow> jsnum \<Rightarrow> price_range_row \<times> commodity \<Rightarrow> db \<Rightarrow> db \<Rightarrow> bool" where
  "reflected e z rc d d' =
     (let c = pr_commodity_id (fst rc);
          u = parseFloat_toFixed 6 (jdiv (Fin 1) z)
      in (case resolve_usd_bounds z (fst rc) of
            None \<Rightarrow> False
          | Some bounds \<Rightarrow>
              (case current_prices d' c of
                 None \<Rightarrow> False
               | Some row \<Rightarrow>
                   cp_commodity_id row = c
                   \<and> cp_price_usd row = parseFloat_toFixed 4 (new_price_usd e c bounds)
                   \<and> cp_price_zar row = parseFloat_toFixed 4 (jmul (new_price_usd e c bounds) u)
                   \<and> cp_exchange_rate row = z
                   \<and> last_updated row = now e)
              \<and> list_ex (\<lambda>h. ph_commodity_id h = c
                            \<and> ph_price_usd h = parseFloat_toFixed 4 (new_price_usd e c bounds)
                            \<and> ph_price_zar h = parseFloat_toFixed 4 (jmul (new_price_usd e c bounds) u)
                            \<and> ph_exchange_rate h = z)
                   (drop (length (price_history d)) (price_history d'))))"

section \<open>Concrete environments and stores\<close>

text \<open>The provider is unreachable, no store operation fails, the clock reads 0.\<close>

definition env_offline :: env where
  "env_offline =
     \<lparr>now = 0, api_rates = (\<lambda>_ _. None), cached_query_fails = False,
      stale_query_fails = False, save_rate_fails = False,
      random_factor = (\<lambda>_. Fin (1 / 2)), ranges_query_error = None,
      current_read_fails = (\<lambda>_. False), current_upsert_error = (\<lambda>_. None),
      history_insert_error = (\<lambda>_. None), rate_log_fails = False,
      run_insert_fails = False, range_upsert_error = None\<rparr>"

definition db_empty :: db where
  "db_empty =
     \<lparr>exchange_rates = [], commodities = Map.empty, price_ranges = [],
      current_prices = Map.empty, price_history = [], price_update_runs = []\<rparr>"

definition gold :: commodity where
  "gold = \<lparr>c_id = 1, c_name = ''Gold'', c_symbol = ''XAU'', c_is_active = True\<rparr>"

definition silver :: commodity where
  "silver = \<lparr>c_id = 2, c_name = ''Silver'', c_symbol = ''XAG'', c_is_active = True\<rparr>"

definition platinum :: commodity where
  "platinum = \<lparr>c_id = 3, c_name = ''Platinum'', c_symbol = ''XPT'', c_is_active = True\<rparr>"

definition gold_range :: price_range_row where
  "gold_range =
     \<lparr>pr_commodity_id = 1, min_price_zar = Null, max_price_zar = Null,
      min_price_usd = Num (Fin 10), max_price_usd = Num (Fin 20),
      pr_is_active = True, updated_by = None, updated_at = 0\<rparr>"

definition silver_range :: price_range_row where
  "silver_range =
     \<lparr>pr_commodity_id = 2, min_price_zar = Num (Fin 100), max_price_zar = Num (Fin 200),
      min_price_usd = Null, max_price_usd = Null,
      pr_is_active = True, updated_by = None, updated_at = 0\<rparr>"

text \<open>A range with one USD bound only.\<close>

definition platinum_range :: price_range_row where
  "platinum_range =
     \<lparr>pr_commodity_id = 3, min_price_zar = Null, max_price_zar = Null,
      min_price_usd = Null, max_price_usd = Num (Fin 5),
      pr_is_active = True, updated_by = None, updated_at = 0\<rparr>"

definition db_three :: db where
  "db_three = db_empty\<lparr>commodities := [1 \<mapsto> gold, 2 \<mapsto> silver, 3 \<mapsto> platinum],
                        price_ranges := [gold_range, silver_range, platinum_range]\<rparr>"

definition db_platinum :: db where
  "db_platinum = db_empty\<lparr>commodities := [3 \<mapsto> platinum], price_ranges := [platinum_range]\<rparr>"

definition store_down :: store_error where
  "store_down = \<lparr>err_message = Some ''connection refused'', err_code = None,
                  err_details = None, err_hint = None\<rparr>"

text \<open>As \<open>env_offline\<close>, but the history insert of commodity 1 fails.\<close>

definition env_gold_fails :: env where
  "env_gold_fails =
     env_offline\<lparr>history_insert_error := (\<lambda>c. if c = 1 then Some store_down else None)\<rparr>"

section \<open>Rounding to a fixed number of decimals\<close>

lemma floor_rat_numeral [simp]:
  "\<lfloor>(numeral a :: rat) / numeral b\<rfloor> = numeral a div numeral b"
proof -
  have "\<lfloor>(of_int (numeral a) :: rat) / of_int (numeral b)\<rfloor> = numeral a div numeral b"
    by (rule floor_divide_of_int_eq)
  then show ?thesis by simp
qed






section \<open>Properties of the price synthesizer\<close>










section \<open>Properties of the rate resolver\<close>

lemma normalise_ZAR: "normaliseCurrencyCode ''ZAR'' = ''ZAR''"
  by (simp add: normaliseCurrencyCode_def trim_def toUpperCase_def upper_char_def is_space_def)

lemma normalise_USD: "normaliseCurrencyCode ''USD'' = ''USD''"
  by (simp add: normaliseCurrencyCode_def trim_def toUpperCase_def upper_char_def is_space_def)






lemma toFixed_digits_nat: "n \<le> 100 \<Longrightarrow> toFixed_digits (Fin (of_nat n)) = Inr n"
  by simp








lemma finite_positive_truthy: "finite_positive r \<Longrightarrow> truthy_num r \<and> isFinite r"
  by (cases r) auto















section \<open>Properties of the daily update\<close>

lemma parseNumber_present: "(parseNumber v \<noteq> None) = present_finite v"
proof (cases v)
  case (Num n)
  then show ?thesis by (cases n) (simp_all add: parseNumber_def)
qed (simp_all add: parseNumber_def)

lemma resolve_usd_bounds_None: "(resolve_usd_bounds z r = None) = incomplete_bounds r"
  by (simp add: resolve_usd_bounds_def incomplete_bounds_def Let_def parseNumber_present
      del: not_None_eq)

lemma update_range_skipped:
  "length (skipped (update_range e z u rc s)) =
     length (skipped s) + (if incomplete_bounds (fst rc) then 1 else 0)"
  using resolve_usd_bounds_None [of z "fst rc"]
  by (auto simp add: update_range_def Let_def split: option.splits prod.splits)

lemma update_range_updated:
  "updatedCount (update_range e z u rc s) =
     updatedCount s + (if task_updates e rc then 1 else 0)"
  using resolve_usd_bounds_None [of z "fst rc"]
  by (auto simp add: update_range_def Let_def task_updates_def write_error_def
      split: option.splits prod.splits)

lemma update_range_failures:
  "failures (update_range e z u rc s) =
     failures s @
       (if incomplete_bounds (fst rc) then []
        else (case write_error e (pr_commodity_id (fst rc)) of
                None \<Rightarrow> []
              | Some err \<Rightarrow> [friendlyError rc err]))"
  using resolve_usd_bounds_None [of z "fst rc"]
  by (auto simp add: update_range_def Let_def write_error_def
      split: option.splits prod.splits)

lemma update_range_frame:
  "price_update_runs (store (update_range e z u rc s)) = price_update_runs (store s)
   \<and> exchange_rates (store (update_range e z u rc s)) = exchange_rates (store s)
   \<and> price_ranges (store (update_range e z u rc s)) = price_ranges (store s)
   \<and> commodities (store (update_range e z u rc s)) = commodities (store s)"
  by (simp add: update_range_def Let_def split: option.splits prod.splits)

lemma update_ranges_skipped:
  "length (skipped (update_ranges e z u rcs s)) =
     length (skipped s) + length (filter (\<lambda>rc. incomplete_bounds (fst rc)) rcs)"
  by (induction rcs arbitrary: s) (simp_all add: update_range_skipped)

lemma update_ranges_updated:
  "updatedCount (update_ranges e z u rcs s) =
     updatedCount s + length (filter (task_updates e) rcs)"
  by (induction rcs arbitrary: s) (simp_all add: update_range_updated)

lemma update_ranges_failures_length:
  "length (failures (update_ranges e z u rcs s)) =
     length (failures s)
     + length (filter (\<lambda>rc. \<not> incomplete_bounds (fst rc) \<and> \<not> task_updates e rc) rcs)"
  by (induction rcs arbitrary: s)
     (auto simp add: update_range_failures task_updates_def split: option.splits)

lemma update_ranges_frame:
  "price_update_runs (store (update_ranges e z u rcs s)) = price_update_runs (store s)
   \<and> exchange_rates (store (update_ranges e z u rcs s)) = exchange_rates (store s)
   \<and> price_ranges (store (update_ranges e z u rcs s)) = price_ranges (store s)
   \<and> commodities (store (update_ranges e z u rcs s)) = commodities (store s)"
  by (induction rcs arbitrary: s) (simp_all add: update_range_frame)

lemma filter_partition_length:
  "length (filter (\<lambda>x. \<not> P x \<and> Q x) xs) + length (filter (\<lambda>x. \<not> P x \<and> \<not> Q x) xs)
     + length (filter P xs) = length xs"
  by (induction xs) auto

lemma task_updates_filter:
  "filter (task_updates e) rcs = filter (\<lambda>rc. \<not> incomplete_bounds (fst rc) \<and> task_updates e rc) rcs"
  by (rule filter_cong) (auto simp add: task_updates_def)

lemma update_ranges_attempted:
  "updatedCount (update_ranges e z u rcs s) + length (failures (update_ranges e z u rcs s)) =
     updatedCount s + length (failures s)
     + (length rcs - length (filter (\<lambda>rc. incomplete_bounds (fst rc)) rcs))"
proof -
  have "length (filter (task_updates e) rcs)
        + length (filter (\<lambda>rc. \<not> incomplete_bounds (fst rc) \<and> \<not> task_updates e rc) rcs)
        + length (filter (\<lambda>rc. incomplete_bounds (fst rc)) rcs) = length rcs"
    using filter_partition_length [of "\<lambda>rc. incomplete_bounds (fst rc)" "task_updates e" rcs]
    by (simp only: task_updates_filter [of e rcs, symmetric])
  then show ?thesis
    by (simp add: update_ranges_updated update_ranges_failures_length)
qed

lemma getCurrencyRate_try_frame:
  "\<exists>rs. snd (getCurrencyRate_try cfg e d f t) = d\<lparr>exchange_rates := rs\<rparr>"
proof -
  have a: "\<exists>rs. d = d\<lparr>exchange_rates := rs\<rparr>"
    by (rule exI [of _ "exchange_rates d"]) simp
  have b: "\<exists>rs. saveExchangeRate e d f t r src = d\<lparr>exchange_rates := rs\<rparr>" for r src
    using a by (auto simp add: saveExchangeRate_def Let_def)
  show ?thesis
    using a b by (simp add: getCurrencyRate_try_def Let_def split: sum.splits)
qed

lemma getCurrencyRate_frame:
  "\<exists>rs. snd (getCurrencyRate cfg e d f t) = d\<lparr>exchange_rates := rs\<rparr>"
  using getCurrencyRate_try_frame [of cfg e d "normaliseCurrencyCode f" "normaliseCurrencyCode t"]
  by (auto simp add: getCurrencyRate_def Let_def split: prod.splits sum.splits)

lemma activeRanges_frame: "activeRanges (d\<lparr>exchange_rates := rs\<rparr>) = activeRanges d"
  by (simp add: activeRanges_def select_price_ranges_def cong: if_cong)

lemma update_range_other:
  "pr_commodity_id (fst rc) \<noteq> c \<Longrightarrow>
   current_prices (store (update_range e z u rc s)) c = current_prices (store s) c"
  by (simp add: update_range_def Let_def split: option.splits prod.splits)

lemma update_range_history:
  "\<exists>new. price_history (store (update_range e z u rc s)) = price_history (store s) @ new"
  by (simp add: update_range_def Let_def split: option.splits prod.splits)

lemma update_ranges_other:
  "c \<notin> set (map (\<lambda>rc. pr_commodity_id (fst rc)) rcs) \<Longrightarrow>
   current_prices (store (update_ranges e z u rcs s)) c = current_prices (store s) c"
  by (induction rcs arbitrary: s) (auto simp add: update_range_other)

lemma update_ranges_history:
  "\<exists>new. price_history (store (update_ranges e z u rcs s)) = price_history (store s) @ new"
proof (induction rcs arbitrary: s)
  case Nil
  then show ?case by simp
next
  case (Cons rc rcs)
  obtain n1 where a: "price_history (store (update_range e z u rc s)) = price_history (store s) @ n1"
    using update_range_history by blast
  obtain n2 where b: "price_history (store (update_ranges e z u rcs (update_range e z u rc s)))
      = price_history (store (update_range e z u rc s)) @ n2"
    using Cons.IH by blast
  show ?case using a b by simp
qed

lemma update_range_ok:
  assumes "task_updates e rc"
  shows "reflected e z rc (store s) (store (update_range e z (parseFloat_toFixed 6 (jdiv (Fin 1) z)) rc s))"
proof -
  obtain bounds where b: "resolve_usd_bounds z (fst rc) = Some bounds"
    using assms resolve_usd_bounds_None [of z "fst rc"] by (auto simp add: task_updates_def)
  have w: "current_upsert_error e (pr_commodity_id (fst rc)) = None"
    "history_insert_error e (pr_commodity_id (fst rc)) = None"
    using assms by (auto simp add: task_updates_def write_error_def split: option.splits)
  show ?thesis
    using b w
    by (simp add: reflected_def update_range_def Let_def new_price_usd_def split: prod.splits)
qed

lemma reflected_extend:
  assumes "reflected e z rc d d1"
    and "current_prices d2 (pr_commodity_id (fst rc)) = current_prices d1 (pr_commodity_id (fst rc))"
    and "price_history d2 = price_history d1 @ new"
    and "length (price_history d) \<le> length (price_history d1)"
  shows "reflected e z rc d d2"
proof -
  have "set (drop (length (price_history d)) (price_history d1))
        \<subseteq> set (drop (length (price_history d)) (price_history d2))"
    using assms(3,4) by auto
  then show ?thesis
    using assms(1,2)
    by (auto simp add: reflected_def Let_def list_ex_iff split: option.splits)
qed

lemma reflected_shift:
  assumes "reflected e z rc d1 d2"
    and "price_history d1 = price_history d @ new"
  shows "reflected e z rc d d2"
proof -
  have "set (drop (length (price_history d1)) (price_history d2))
        \<subseteq> set (drop (length (price_history d)) (price_history d2))"
    using assms(2) by (simp add: set_drop_subset_set_drop)
  then show ?thesis
    using assms(1)
    by (auto simp add: reflected_def Let_def list_ex_iff split: option.splits)
qed

lemma update_ranges_reflected:
  assumes "rc \<in> set rcs" and "task_updates e rc"
    and "distinct (map (\<lambda>rc. pr_commodity_id (fst rc)) rcs)"
  shows "reflected e z rc (store s)
           (store (update_ranges e z (parseFloat_toFixed 6 (jdiv (Fin 1) z)) rcs s))"
  using assms
proof (induction rcs arbitrary: s)
  case Nil
  then show ?case by simp
next
  case (Cons r rcs)
  let ?u = "parseFloat_toFixed 6 (jdiv (Fin 1) z)"
  let ?s1 = "update_range e z ?u r s"
  obtain n1 where h1: "price_history (store ?s1) = price_history (store s) @ n1"
    using update_range_history by blast
  obtain n2 where h2: "price_history (store (update_ranges e z ?u rcs ?s1)) = price_history (store ?s1) @ n2"
    using update_ranges_history by blast
  show ?case
  proof (cases "rc = r")
    case True
    have "pr_commodity_id (fst rc) \<notin> set (map (\<lambda>rc. pr_commodity_id (fst rc)) rcs)"
      using Cons.prems(3) True by simp
    then have same: "current_prices (store (update_ranges e z ?u rcs ?s1)) (pr_commodity_id (fst rc))
        = current_prices (store ?s1) (pr_commodity_id (fst rc))"
      by (rule update_ranges_other)
    have r1: "reflected e z rc (store s) (store ?s1)"
      using update_range_ok [OF Cons.prems(2)] True by simp
    have len: "length (price_history (store s)) \<le> length (price_history (store ?s1))"
      using h1 by simp
    have "reflected e z rc (store s) (store (update_ranges e z ?u rcs ?s1))"
      by (rule reflected_extend [OF r1 same h2 len])
    then show ?thesis by simp
  next
    case False
    then have "rc \<in> set rcs" using Cons.prems(1) by simp
    moreover have "distinct (map (\<lambda>rc. pr_commodity_id (fst rc)) rcs)"
      using Cons.prems(3) by simp
    ultimately have "reflected e z rc (store ?s1) (store (update_ranges e z ?u rcs ?s1))"
      using Cons.IH Cons.prems(2) by blast
    then have "reflected e z rc (store s) (store (update_ranges e z ?u rcs ?s1))"
      using h1 by (rule reflected_shift)
    then show ?thesis by simp
  qed
qed

lemma update_ranges_failures_prefix:
  "\<exists>new. failures (update_ranges e z u rcs s) = failures s @ new"
proof (induction rcs arbitrary: s)
  case Nil
  then show ?case by simp
next
  case (Cons rc rcs)
  obtain n1 where a: "failures (update_range e z u rc s) = failures s @ n1"
    using update_range_failures by blast
  obtain n2 where b: "failures (update_ranges e z u rcs (update_range e z u rc s))
      = failures (update_range e z u rc s) @ n2"
    using Cons.IH by blast
  show ?case using a b by simp
qed

lemma update_ranges_failure_recorded:
  assumes "rc \<in> set rcs" and "\<not> incomplete_bounds (fst rc)"
    and "write_error e (pr_commodity_id (fst rc)) = Some err"
  shows "friendlyError rc err \<in> set (failures (update_ranges e z u rcs s))"
  using assms
proof (induction rcs arbitrary: s)
  case Nil
  then show ?case by simp
next
  case (Cons r rcs)
  show ?case
  proof (cases "rc = r")
    case True
    have "friendlyError rc err \<in> set (failures (update_range e z u r s))"
      using True Cons.prems(2,3) by (simp add: update_range_failures)
    moreover obtain new where "failures (update_ranges e z u rcs (update_range e z u r s))
        = failures (update_range e z u r s) @ new"
      using update_ranges_failures_prefix by blast
    ultimately show ?thesis by simp
  next
    case False
    then have "rc \<in> set rcs" using Cons.prems(1) by simp
    then show ?thesis using Cons.IH Cons.prems(2,3) by simp
  qed
qed

lemma update_range_skipped_eq:
  "\<exists>new. \<forall>s. skipped (update_range e z u rc s) = skipped s @ new"
proof (cases "resolve_usd_bounds z (fst rc)")
  case None
  then show ?thesis by (simp add: update_range_def Let_def)
next
  case (Some b)
  then have "\<forall>s. skipped (update_range e z u rc s) = skipped s @ []"
    by (simp add: update_range_def Let_def split: option.splits prod.splits)
  then show ?thesis by blast
qed

lemma update_range_history_eq:
  "\<exists>new. \<forall>s. price_history (store (update_range e z u rc s)) = price_history (store s) @ new"
proof (cases "resolve_usd_bounds z (fst rc)")
  case None
  then have "\<forall>s. price_history (store (update_range e z u rc s)) = price_history (store s) @ []"
    by (simp add: update_range_def Let_def)
  then show ?thesis by blast
next
  case (Some b)
  show ?thesis
  proof (cases "write_error e (pr_commodity_id (fst rc))")
    case None
    then have w: "current_upsert_error e (pr_commodity_id (fst rc)) = None"
      "history_insert_error e (pr_commodity_id (fst rc)) = None"
      by (auto simp add: write_error_def split: option.splits)
    show ?thesis using Some w
      by (cases b) (simp add: update_range_def Let_def)
  next
    case (Some err)
    then have "\<forall>s. price_history (store (update_range e z u rc s)) = price_history (store s) @ []"
      using \<open>resolve_usd_bounds z (fst rc) = Some b\<close>
      by (cases b) (auto simp add: update_range_def Let_def write_error_def split: option.splits)
    then show ?thesis by blast
  qed
qed

lemma update_range_current_commute:
  assumes "pr_commodity_id (fst rc1) \<noteq> pr_commodity_id (fst rc2)"
  shows "current_prices (store (update_range e z u rc1 (update_range e z u rc2 s)))
           = current_prices (store (update_range e z u rc2 (update_range e z u rc1 s)))"
  using assms
  by (auto simp add: update_range_def Let_def getCurrentPriceRecord_def fun_upd_twist
      split: option.splits prod.splits)

text \<open>
  Two tasks of different commodities commute, up to the order of the rows they append
  and of the entries they push: the order in which the tasks of a cycle run does not
  change the counts, the current prices, or which rows and entries are there.
\<close>

lemma update_range_commute:
  assumes "pr_commodity_id (fst rc1) \<noteq> pr_commodity_id (fst rc2)"
  shows "updatedCount (update_range e z u rc1 (update_range e z u rc2 s))
           = updatedCount (update_range e z u rc2 (update_range e z u rc1 s))
       \<and> current_prices (store (update_range e z u rc1 (update_range e z u rc2 s)))
           = current_prices (store (update_range e z u rc2 (update_range e z u rc1 s)))
       \<and> set (price_history (store (update_range e z u rc1 (update_range e z u rc2 s))))
           = set (price_history (store (update_range e z u rc2 (update_range e z u rc1 s))))
       \<and> set (failures (update_range e z u rc1 (update_range e z u rc2 s)))
           = set (failures (update_range e z u rc2 (update_range e z u rc1 s)))
       \<and> set (skipped (update_range e z u rc1 (update_range e z u rc2 s)))
           = set (skipped (update_range e z u rc2 (update_range e z u rc1 s)))"
proof -
  obtain h1 h2 where h: "\<forall>s. price_history (store (update_range e z u rc1 s)) = price_history (store s) @ h1"
    "\<forall>s. price_history (store (update_range e z u rc2 s)) = price_history (store s) @ h2"
    using update_range_history_eq by metis
  obtain k1 k2 where k: "\<forall>s. skipped (update_range e z u rc1 s) = skipped s @ k1"
    "\<forall>s. skipped (update_range e z u rc2 s) = skipped s @ k2"
    using update_range_skipped_eq by metis
  have "set (price_history (store (update_range e z u rc1 (update_range e z u rc2 s))))
           = set (price_history (store (update_range e z u rc2 (update_range e z u rc1 s))))"
    using h by auto
  moreover have "set (skipped (update_range e z u rc1 (update_range e z u rc2 s)))
           = set (skipped (update_range e z u rc2 (update_range e z u rc1 s)))"
    using k by auto
  moreover have "set (failures (update_range e z u rc1 (update_range e z u rc2 s)))
           = set (failures (update_range e z u rc2 (update_range e z u rc1 s)))"
    by (auto simp add: update_range_failures)
  moreover have "updatedCount (update_range e z u rc1 (update_range e z u rc2 s))
           = updatedCount (update_range e z u rc2 (update_range e z u rc1 s))"
    by (simp add: update_range_updated)
  ultimately show ?thesis using update_range_current_commute [OF assms] by blast
qed

lemma getCurrencyRate_tables:
  assumes "getCurrencyRate cfg e d f t = (r, d0)"
  shows "activeRanges d0 = activeRanges d" and "price_update_runs d0 = price_update_runs d"
    and "price_history d0 = price_history d" and "current_prices d0 = current_prices d"
    and "price_ranges d0 = price_ranges d"
proof -
  obtain rs where "snd (getCurrencyRate cfg e d f t) = d\<lparr>exchange_rates := rs\<rparr>"
    using getCurrencyRate_frame by blast
  then have d0: "d0 = d\<lparr>exchange_rates := rs\<rparr>" using assms by simp
  show "activeRanges d0 = activeRanges d" using d0 by (simp add: activeRanges_frame)
  show "price_update_runs d0 = price_update_runs d" using d0 by simp
  show "price_history d0 = price_history d" using d0 by simp
  show "current_prices d0 = current_prices d" using d0 by simp
  show "price_ranges d0 = price_ranges d" using d0 by simp
qed

lemma updateDailyPrices_reached:
  assumes rate: "getCurrencyRate cfg e d ''ZAR'' ''USD'' = (Inr z, d0)"
    and z: "truthy_num z"
    and q: "ranges_query_error e = None"
    and S: "S = update_ranges e z (parseFloat_toFixed 6 (jdiv (Fin 1) z)) (activeRanges d)
                  \<lparr>updatedCount = 0, skipped = [], failures = [], store = d0\<rparr>"
  shows "\<exists>d'. updateDailyPrices cfg e d ts tb =
           (Inr \<lparr>success = True, updated = updatedCount S, total = length (activeRanges d),
                 res_skipped = skipped S, res_failures = failures S\<rparr>, d')
         \<and> current_prices d' = current_prices (store S)
         \<and> price_history d' = price_history (store S)
         \<and> price_update_runs d' = price_update_runs d @
              (if run_insert_fails e then []
               else [\<lparr>executed_at = now e, triggered_by = tb, run_trigger_source = ts,
                      total_commodities = length (activeRanges d),
                      updated_commodities = updatedCount S,
                      status = (if 0 < updatedCount S then Success else NoUpdates),
                      run_notes = None\<rparr>])"
proof -
  have a: "activeRanges d0 = activeRanges d" and r: "price_update_runs d0 = price_update_runs d"
    using getCurrencyRate_tables [OF rate] by simp_all
  have f: "price_update_runs (store S) = price_update_runs d"
    using update_ranges_frame [of e z "parseFloat_toFixed 6 (jdiv (Fin 1) z)" "activeRanges d"
        "\<lparr>updatedCount = 0, skipped = [], failures = [], store = d0\<rparr>"] S r by simp
  show ?thesis
    using rate z q a f S [symmetric]
    by (simp add: updateDailyPrices_def Let_def)
qed

lemma updateDailyPrices_aborted:
  assumes "\<not> (\<exists>z d0. getCurrencyRate cfg e d ''ZAR'' ''USD'' = (Inr z, d0) \<and> truthy_num z
               \<and> ranges_query_error e = None)"
  shows "\<exists>err d'. updateDailyPrices cfg e d ts tb = (Inl err, d')
           \<and> price_update_runs d' = price_update_runs d"
proof -
  obtain r d0 where g: "getCurrencyRate cfg e d ''ZAR'' ''USD'' = (r, d0)"
    by (cases "getCurrencyRate cfg e d ''ZAR'' ''USD''")
  have runs: "price_update_runs d0 = price_update_runs d"
    using getCurrencyRate_tables [OF g] by simp
  show ?thesis
  proof (cases r)
    case (Inl err)
    then show ?thesis using g runs by (simp add: updateDailyPrices_def)
  next
    case (Inr z)
    then have "\<not> truthy_num z \<or> ranges_query_error e \<noteq> None" using assms g by simp
    then show ?thesis using g Inr runs
      by (auto simp add: updateDailyPrices_def Let_def simp del: truthy_num.simps)
  qed
qed

section \<open>The daily update on concrete stores\<close>

lemma rate_offline:
  assumes "exchange_rates d = []" and "save_rate_fails e = False" and "api_rates e = (\<lambda>_ _. None)"
    and "now e = 0"
  shows "getCurrencyRate default_config e d ''ZAR'' ''USD'' =
     (Inr (Fin (54 / 1000)),
      d\<lparr>exchange_rates := [\<lparr>from_currency = ''ZAR'', to_currency = ''USD'',
                             rate = Fin (54 / 1000), recorded_at = 0, source = Fallback\<rparr>]\<rparr>)"
  using assms
  by (simp add: getCurrencyRate_def getCurrencyRate_try_def normalise_ZAR normalise_USD
      getCachedExchangeRate_def fetchExchangeRateFromAPI_def latest_rate_row_def
      resolveFallbackRate_def default_config_def nullish_def saveExchangeRate_def Let_def)

lemma rate_gold_fails:
  "getCurrencyRate default_config env_gold_fails db_three ''ZAR'' ''USD'' =
     (Inr (Fin (54 / 1000)),
      db_three\<lparr>exchange_rates := [\<lparr>from_currency = ''ZAR'', to_currency = ''USD'',
                             rate = Fin (54 / 1000), recorded_at = 0, source = Fallback\<rparr>]\<rparr>)"
  by (rule rate_offline)
     (simp_all add: db_three_def db_empty_def env_gold_fails_def env_offline_def)

lemma rate_platinum:
  "getCurrencyRate default_config env_offline db_platinum ''ZAR'' ''USD'' =
     (Inr (Fin (54 / 1000)),
      db_platinum\<lparr>exchange_rates := [\<lparr>from_currency = ''ZAR'', to_currency = ''USD'',
                             rate = Fin (54 / 1000), recorded_at = 0, source = Fallback\<rparr>]\<rparr>)"
  by (rule rate_offline)
     (simp_all add: db_platinum_def db_empty_def env_offline_def)

lemma activeRanges_db_three:
  "activeRanges db_three = [(gold_range, gold), (silver_range, silver), (platinum_range, platinum)]"
  by (simp add: activeRanges_def select_price_ranges_def db_three_def db_empty_def
      List.map_filter_def gold_range_def silver_range_def platinum_range_def
      gold_def silver_def platinum_def)

lemma activeRanges_db_platinum: "activeRanges db_platinum = [(platinum_range, platinum)]"
  by (simp add: activeRanges_def select_price_ranges_def db_platinum_def db_empty_def
      List.map_filter_def platinum_range_def platinum_def)

lemma bounds_of_fixtures:
  "\<not> incomplete_bounds gold_range" "\<not> incomplete_bounds silver_range"
  "incomplete_bounds platinum_range"
  by (simp_all add: incomplete_bounds_def gold_range_def silver_range_def platinum_range_def)

lemma cycle_gold_fails:
  "\<exists>res d'. updateDailyPrices default_config env_gold_fails db_three Manual None = (Inr res, d')"
proof -
  have "ranges_query_error env_gold_fails = None"
    by (simp add: env_gold_fails_def env_offline_def)
  then show ?thesis
    using updateDailyPrices_reached [OF rate_gold_fails _ _ refl, of Manual None] by auto
qed

lemma cycle_platinum:
  "\<exists>res d'. updateDailyPrices default_config env_offline db_platinum Cron None = (Inr res, d')"
proof -
  have "ranges_query_error env_offline = None"
    by (simp add: env_offline_def)
  then show ?thesis
    using updateDailyPrices_reached [OF rate_platinum _ _ refl, of Cron None] by auto
qed

text \<open>
  C2, as stated, fails: with one active range, whose bounds are incomplete (\<open>N = 1\<close>,
  \<open>K = 1\<close>), the run row holds \<open>total_commodities = 1\<close>, the number of active
  ranges, not \<open>N - K = 0\<close>; and no run row is written when its insert fails.
\<close>

theorem updateDailyPrices_counts_counterexample:
  "length (activeRanges db_platinum) = 1
   \<and> length (filter (\<lambda>rc. incomplete_bounds (fst rc)) (activeRanges db_platinum)) = 1
   \<and> map total_commodities (price_update_runs
        (snd (updateDailyPrices default_config env_offline db_platinum Cron None))) = [1]
   \<and> price_update_runs (snd (updateDailyPrices default_config
        (env_offline\<lparr>run_insert_fails := True\<rparr>) db_platinum Cron None)) = []"
  by code_simp

text \<open>
  C2, amended: a cycle of \<open>updateDailyPrices\<close> that returns, over \<open>N\<close> active ranges of
  which \<open>K\<close> have an incomplete bound pair, attempts exactly \<open>N - K\<close> updates (the
  updated and the failed commodities together), lists exactly \<open>K\<close> skipped entries,
  reports \<open>total = N\<close>, and writes exactly one run row, with
  \<open>total_commodities = N\<close>, when the insert of the run row succeeds, and none
  otherwise.
\<close>

theorem updateDailyPrices_counts:
  assumes "updateDailyPrices cfg e d ts tb = (Inr res, d')"
  shows "length (res_skipped res) = length (filter (\<lambda>rc. incomplete_bounds (fst rc)) (activeRanges d))
       \<and> updated res + length (res_failures res) =
           length (activeRanges d) - length (filter (\<lambda>rc. incomplete_bounds (fst rc)) (activeRanges d))
       \<and> total res = length (activeRanges d)
       \<and> (if run_insert_fails e then price_update_runs d' = price_update_runs d
          else (\<exists>run. price_update_runs d' = price_update_runs d @ [run]
                  \<and> total_commodities run = length (activeRanges d)
                  \<and> updated_commodities run = updated res))"
proof -
  obtain z d0 where rate: "getCurrencyRate cfg e d ''ZAR'' ''USD'' = (Inr z, d0)"
    and z: "truthy_num z" and q: "ranges_query_error e = None"
    using updateDailyPrices_aborted [of cfg e d ts tb] assms by fastforce
  define S where "S = update_ranges e z (parseFloat_toFixed 6 (jdiv (Fin 1) z)) (activeRanges d)
                  \<lparr>updatedCount = 0, skipped = [], failures = [], store = d0\<rparr>"
  obtain d1 where r: "updateDailyPrices cfg e d ts tb =
           (Inr \<lparr>success = True, updated = updatedCount S, total = length (activeRanges d),
                 res_skipped = skipped S, res_failures = failures S\<rparr>, d1)"
    and runs: "price_update_runs d1 = price_update_runs d @
              (if run_insert_fails e then []
               else [\<lparr>executed_at = now e, triggered_by = tb, run_trigger_source = ts,
                      total_commodities = length (activeRanges d),
                      updated_commodities = updatedCount S,
                      status = (if 0 < updatedCount S then Success else NoUpdates),
                      run_notes = None\<rparr>])"
    using updateDailyPrices_reached [OF rate z q S_def] by blast
  have res: "res = \<lparr>success = True, updated = updatedCount S, total = length (activeRanges d),
                 res_skipped = skipped S, res_failures = failures S\<rparr>" and d1: "d' = d1"
    using r assms by simp_all
  have sk: "length (skipped S) = length (filter (\<lambda>rc. incomplete_bounds (fst rc)) (activeRanges d))"
    unfolding S_def by (simp add: update_ranges_skipped)
  have at: "updatedCount S + length (failures S) =
      length (activeRanges d) - length (filter (\<lambda>rc. incomplete_bounds (fst rc)) (activeRanges d))"
    unfolding S_def by (simp add: update_ranges_attempted)
  show ?thesis using res d1 sk at runs by simp
qed

text \<open>
  The amended C2 on three active ranges, one of them incomplete, with a failing write
  for one of the other two.
\<close>

theorem updateDailyPrices_counts_witness:
  "\<exists>res d'. updateDailyPrices default_config env_gold_fails db_three Manual None = (Inr res, d')
     \<and> length (res_skipped res) = 1
     \<and> updated res + length (res_failures res) = 2
     \<and> total res = 3
     \<and> (\<exists>run. price_update_runs d' = [run] \<and> total_commodities run = 3)"
proof -
  obtain res d' where c: "updateDailyPrices default_config env_gold_fails db_three Manual None = (Inr res, d')"
    using cycle_gold_fails by blast
  have e: "run_insert_fails env_gold_fails = False" "price_update_runs db_three = []"
    by (simp_all add: env_gold_fails_def env_offline_def db_three_def db_empty_def)
  show ?thesis
    using updateDailyPrices_counts [OF c] c e
    by (auto simp add: activeRanges_db_three bounds_of_fixtures numeral_3_eq_3)
qed

lemma filter_nonempty_iff: "(0 < length (filter P xs)) = (\<exists>x \<in> set xs. P x)"
  by (simp add: filter_empty_conv)

text \<open>
  C10: \<open>updateDailyPrices\<close> appends at most one run row, and the status of a row it
  writes is \<open>success\<close> if and only if at least one commodity was updated in the cycle
  (a range with complete bounds whose two writes succeed), and \<open>no_updates\<close>
  otherwise, also when every commodity was skipped or failed; there is no third
  status. The row's \<open>updated_commodities\<close> is the number the cycle returns.
\<close>

theorem run_status_iff_updated:
  "\<exists>new. price_update_runs (snd (updateDailyPrices cfg e d ts tb)) = price_update_runs d @ new
     \<and> length new \<le> 1
     \<and> list_all (\<lambda>run.
          (status run = Success \<longleftrightarrow> (\<exists>rc \<in> set (activeRanges d). task_updates e rc))
          \<and> (status run = NoUpdates \<longleftrightarrow> \<not> (\<exists>rc \<in> set (activeRanges d). task_updates e rc))
          \<and> updated_commodities run = length (filter (task_updates e) (activeRanges d))
          \<and> (\<exists>res. fst (updateDailyPrices cfg e d ts tb) = Inr res
                \<and> updated res = updated_commodities run)) new"
proof (cases "\<exists>z d0. getCurrencyRate cfg e d ''ZAR'' ''USD'' = (Inr z, d0) \<and> truthy_num z
               \<and> ranges_query_error e = None")
  case False
  then obtain err d' where "updateDailyPrices cfg e d ts tb = (Inl err, d')"
    and "price_update_runs d' = price_update_runs d"
    using updateDailyPrices_aborted [of cfg e d ts tb] by blast
  then have "price_update_runs (snd (updateDailyPrices cfg e d ts tb)) = price_update_runs d @ []"
    by simp
  then show ?thesis by (intro exI [of _ "[]"]) simp
next
  case True
  then obtain z d0 where rate: "getCurrencyRate cfg e d ''ZAR'' ''USD'' = (Inr z, d0)"
    and z: "truthy_num z" and q: "ranges_query_error e = None"
    by blast
  define S where "S = update_ranges e z (parseFloat_toFixed 6 (jdiv (Fin 1) z)) (activeRanges d)
                  \<lparr>updatedCount = 0, skipped = [], failures = [], store = d0\<rparr>"
  define new where "new = (if run_insert_fails e then []
               else [\<lparr>executed_at = now e, triggered_by = tb, run_trigger_source = ts,
                      total_commodities = length (activeRanges d),
                      updated_commodities = updatedCount S,
                      status = (if 0 < updatedCount S then Success else NoUpdates),
                      run_notes = None\<rparr>])"
  obtain d1 where r: "updateDailyPrices cfg e d ts tb =
           (Inr \<lparr>success = True, updated = updatedCount S, total = length (activeRanges d),
                 res_skipped = skipped S, res_failures = failures S\<rparr>, d1)"
    and runs: "price_update_runs d1 = price_update_runs d @ new"
    using updateDailyPrices_reached [OF rate z q S_def, of ts tb] unfolding new_def by blast
  have u: "updatedCount S = length (filter (task_updates e) (activeRanges d))"
    unfolding S_def by (simp add: update_ranges_updated)
  have pos: "(0 < updatedCount S) = (\<exists>rc \<in> set (activeRanges d). task_updates e rc)"
    unfolding u by (rule filter_nonempty_iff)
  have "price_update_runs (snd (updateDailyPrices cfg e d ts tb)) = price_update_runs d @ new"
    using r runs by simp
  moreover have "length new \<le> 1" by (simp add: new_def)
  moreover have "list_all (\<lambda>run.
          (status run = Success \<longleftrightarrow> (\<exists>rc \<in> set (activeRanges d). task_updates e rc))
          \<and> (status run = NoUpdates \<longleftrightarrow> \<not> (\<exists>rc \<in> set (activeRanges d). task_updates e rc))
          \<and> updated_commodities run = length (filter (task_updates e) (activeRanges d))
          \<and> (\<exists>res. fst (updateDailyPrices cfg e d ts tb) = Inr res
                \<and> updated res = updated_commodities run)) new"
    using pos u r by (simp add: new_def)
  ultimately show ?thesis by blast
qed

lemma ids_of_fixtures:
  "pr_commodity_id gold_range = 1" "pr_commodity_id silver_range = 2"
  "pr_commodity_id platinum_range = 3"
  by (simp_all add: gold_range_def silver_range_def platinum_range_def)

lemma task_updates_fixtures:
  "\<not> task_updates env_gold_fails (gold_range, gold)"
  "task_updates env_gold_fails (silver_range, silver)"
  "\<not> task_updates env_gold_fails (platinum_range, platinum)"
  "\<not> task_updates env_offline (platinum_range, platinum)"
  by (simp_all add: task_updates_def write_error_def env_gold_fails_def env_offline_def
      bounds_of_fixtures ids_of_fixtures)

lemma runs_length_fixtures:
  "length (price_update_runs (snd (updateDailyPrices default_config env_gold_fails db_three Manual None))) = 1"
  "length (price_update_runs (snd (updateDailyPrices default_config env_offline db_platinum Cron None))) = 1"
  by code_simp+

text \<open>
  C10 on a cycle with one updated, one failed and one skipped commodity, and on a
  cycle whose only commodity is skipped.
\<close>

theorem run_status_iff_updated_witness:
  "(\<exists>run. price_update_runs (snd (updateDailyPrices default_config env_gold_fails db_three Manual None)) = [run]
      \<and> status run = Success \<and> updated_commodities run = 1)
   \<and> (\<exists>run. price_update_runs (snd (updateDailyPrices default_config env_offline db_platinum Cron None)) = [run]
      \<and> status run = NoUpdates \<and> updated_commodities run = 0)"
proof -
  have p: "price_update_runs db_three = []" "price_update_runs db_platinum = []"
    by (simp_all add: db_three_def db_platinum_def db_empty_def)
  obtain n1 where a: "price_update_runs (snd (updateDailyPrices default_config env_gold_fails db_three Manual None)) = n1"
    and a': "list_all (\<lambda>run.
          (status run = Success \<longleftrightarrow> (\<exists>rc \<in> set (activeRanges db_three). task_updates env_gold_fails rc))
          \<and> updated_commodities run = length (filter (task_updates env_gold_fails) (activeRanges db_three))) n1"
    using run_status_iff_updated [of default_config env_gold_fails db_three Manual None] p
    by (auto simp add: list_all_iff)
  obtain n2 where b: "price_update_runs (snd (updateDailyPrices default_config env_offline db_platinum Cron None)) = n2"
    and b': "list_all (\<lambda>run.
          (status run = NoUpdates \<longleftrightarrow> \<not> (\<exists>rc \<in> set (activeRanges db_platinum). task_updates env_offline rc))
          \<and> updated_commodities run = length (filter (task_updates env_offline) (activeRanges db_platinum))) n2"
    using run_status_iff_updated [of default_config env_offline db_platinum Cron None] p
    by (auto simp add: list_all_iff)
  obtain r1 where n1: "n1 = [r1]"
    using runs_length_fixtures(1) a by (cases n1) auto
  obtain r2 where n2: "n2 = [r2]"
    using runs_length_fixtures(2) b by (cases n2) auto
  show ?thesis
    using a a' b b' n1 n2
    by (simp add: activeRanges_db_three activeRanges_db_platinum task_updates_fixtures)
qed

lemma reflected_tables:
  assumes "price_history d = price_history d0" and "current_prices d' = current_prices d1"
    and "price_history d' = price_history d1"
  shows "reflected e z rc d d' = reflected e z rc d0 d1"
  by (simp only: reflected_def assms)

text \<open>
  C4: in a cycle whose rate is resolved and whose ranges are read, over active ranges
  of distinct commodities, a commodity whose persistence write fails is recorded in
  the failures list with its id, symbol and message; every commodity whose own writes
  succeed is still updated and reflected in \<open>current_prices\<close> and \<open>price_history\<close>;
  the run row is still written when its insert succeeds; and the cycle returns a
  success result that carries the failures list.
\<close>

theorem failed_write_is_isolated:
  assumes rate: "getCurrencyRate cfg e d ''ZAR'' ''USD'' = (Inr z, d0)" and z: "truthy_num z"
    and q: "ranges_query_error e = None"
    and dist: "distinct (map (\<lambda>rc. pr_commodity_id (fst rc)) (activeRanges d))"
    and rc: "rc \<in> set (activeRanges d)" and c: "\<not> incomplete_bounds (fst rc)"
    and w: "write_error e (pr_commodity_id (fst rc)) = Some err"
  shows "\<exists>res d'. updateDailyPrices cfg e d ts tb = (Inr res, d')
     \<and> success res
     \<and> (\<exists>f \<in> set (res_failures res).
           f_commodityId f = pr_commodity_id (fst rc)
           \<and> f_symbol f = Some (c_symbol (snd rc))
           \<and> f_message f = (case err_message err of None \<Rightarrow> ''[object Object]'' | Some m \<Rightarrow> m))
     \<and> (\<forall>rc' \<in> set (activeRanges d). task_updates e rc' \<longrightarrow> reflected e z rc' d d')
     \<and> updated res = length (filter (task_updates e) (activeRanges d))
     \<and> (\<not> run_insert_fails e \<longrightarrow> (\<exists>run. price_update_runs d' = price_update_runs d @ [run]))"
proof -
  let ?u = "parseFloat_toFixed 6 (jdiv (Fin 1) z)"
  let ?s0 = "\<lparr>updatedCount = 0, skipped = [], failures = [], store = d0\<rparr>"
  define S where "S = update_ranges e z ?u (activeRanges d) ?s0"
  obtain d' where r: "updateDailyPrices cfg e d ts tb =
           (Inr \<lparr>success = True, updated = updatedCount S, total = length (activeRanges d),
                 res_skipped = skipped S, res_failures = failures S\<rparr>, d')"
    and cur: "current_prices d' = current_prices (store S)"
    and hist: "price_history d' = price_history (store S)"
    and runs: "price_update_runs d' = price_update_runs d @
              (if run_insert_fails e then []
               else [\<lparr>executed_at = now e, triggered_by = tb, run_trigger_source = ts,
                      total_commodities = length (activeRanges d),
                      updated_commodities = updatedCount S,
                      status = (if 0 < updatedCount S then Success else NoUpdates),
                      run_notes = None\<rparr>])"
    using updateDailyPrices_reached [OF rate z q S_def] by blast
  have h0: "price_history d = price_history d0"
    using getCurrencyRate_tables [OF rate] by simp
  have fail: "friendlyError rc err \<in> set (failures S)"
    unfolding S_def using rc c w by (rule update_ranges_failure_recorded)
  have entry: "f_commodityId (friendlyError rc err) = pr_commodity_id (fst rc)
      \<and> f_symbol (friendlyError rc err) = Some (c_symbol (snd rc))
      \<and> f_message (friendlyError rc err) = (case err_message err of None \<Rightarrow> ''[object Object]'' | Some m \<Rightarrow> m)"
    by (simp add: friendlyError_def)
  have refl: "reflected e z rc' d d'" if "rc' \<in> set (activeRanges d)" "task_updates e rc'" for rc'
  proof -
    have "reflected e z rc' (store ?s0) (store (update_ranges e z ?u (activeRanges d) ?s0))"
      using that dist by (rule update_ranges_reflected)
    then have "reflected e z rc' d0 (store S)" by (simp add: S_def)
    then show ?thesis using reflected_tables [OF h0 cur hist] by simp
  qed
  have upd: "updatedCount S = length (filter (task_updates e) (activeRanges d))"
    unfolding S_def by (simp add: update_ranges_updated)
  show ?thesis
    using r fail entry refl upd runs by auto
qed

lemma distinct_db_three:
  "distinct (map (\<lambda>rc. pr_commodity_id (fst rc)) (activeRanges db_three))"
  by (simp add: activeRanges_db_three ids_of_fixtures)

text \<open>
  C4 on three ranges: the history insert of commodity 1 fails, commodity 2 is
  updated, commodity 3 is skipped.
\<close>

theorem failed_write_is_isolated_witness:
  "\<exists>res d'. updateDailyPrices default_config env_gold_fails db_three Manual None = (Inr res, d')
     \<and> success res
     \<and> (\<exists>f \<in> set (res_failures res).
           f_commodityId f = 1 \<and> f_symbol f = Some ''XAU'' \<and> f_message f = ''connection refused'')
     \<and> reflected env_gold_fails (Fin (54 / 1000)) (silver_range, silver) db_three d'
     \<and> updated res = 1
     \<and> (\<exists>run. price_update_runs d' = [run])"
proof -
  have e: "ranges_query_error env_gold_fails = None" "\<not> run_insert_fails env_gold_fails"
    "write_error env_gold_fails (pr_commodity_id (fst (gold_range, gold))) = Some store_down"
    by (simp_all add: env_gold_fails_def env_offline_def write_error_def ids_of_fixtures)
  have m: "(gold_range, gold) \<in> set (activeRanges db_three)"
    "\<not> incomplete_bounds (fst (gold_range, gold))"
    by (simp_all add: activeRanges_db_three bounds_of_fixtures)
  have p: "price_update_runs db_three = []" "err_message store_down = Some ''connection refused''"
    "c_symbol gold = ''XAU''"
    by (simp_all add: db_three_def db_empty_def store_down_def gold_def)
  show ?thesis
    using failed_write_is_isolated [OF rate_gold_fails _ e(1) distinct_db_three m e(3), of Manual None]
      e(2) p
    by (simp add: activeRanges_db_three task_updates_fixtures ids_of_fixtures)
qed

section \<open>Properties of the manual update and the range editor\<close>

lemma updateCommodityPrice_no_success:
  "fst (updateCommodityPrice cfg e d c pu pz tb ts) \<noteq> Inr res"
  by (simp add: updateCommodityPrice_def Let_def split: prod.splits sum.splits option.splits)

lemma updateCommodityPrice_writes:
  assumes rate: "getCurrencyRate cfg e d ''ZAR'' ''USD'' = (Inr z, d0)" and z: "truthy_num z"
    and p: "present_finite pu \<or> present_finite pz"
    and w: "write_error e c = None"
  shows "fst (updateCommodityPrice cfg e d c pu pz tb ts) = Inl (ReferenceError ''change24h is not defined'')
       \<and> current_prices (snd (updateCommodityPrice cfg e d c pu pz tb ts)) c \<noteq> None
       \<and> length (price_history (snd (updateCommodityPrice cfg e d c pu pz tb ts)))
           = Suc (length (price_history d))
       \<and> (\<not> run_insert_fails e \<longrightarrow>
            (\<exists>run. price_update_runs (snd (updateCommodityPrice cfg e d c pu pz tb ts))
                      = price_update_runs d @ [run]
                   \<and> run_trigger_source run = ts \<and> status run = Success))"
proof -
  have t: "price_history d0 = price_history d" "price_update_runs d0 = price_update_runs d"
    using getCurrencyRate_tables [OF rate] by simp_all
  have w': "current_upsert_error e c = None" "history_insert_error e c = None"
    using w by (auto simp add: write_error_def split: option.splits)
  have p': "parseNumber pu \<noteq> None \<or> parseNumber pz \<noteq> None"
    using p by (simp only: parseNumber_present)
  show ?thesis
    using rate z w' p' t
    by (auto simp add: updateCommodityPrice_def Let_def simp del: truthy_num.simps)
qed

text \<open>
  C3, on the code: \<open>updateCommodityPrice\<close> never returns a success result. With a
  resolved rate, one finite price at least and working writes it upserts the current
  price, inserts the history row and the run row, and then throws the
  \<open>ReferenceError\<close> of the undeclared \<open>change24h\<close>.
\<close>

theorem updateCommodityPrice_throws:
  "(\<forall>res. fst (updateCommodityPrice cfg e d c pu pz tb ts) \<noteq> Inr res)
   \<and> (\<forall>z d0. getCurrencyRate cfg e d ''ZAR'' ''USD'' = (Inr z, d0) \<and> truthy_num z
          \<and> (present_finite pu \<or> present_finite pz) \<and> write_error e c = None
        \<longrightarrow> fst (updateCommodityPrice cfg e d c pu pz tb ts)
              = Inl (ReferenceError ''change24h is not defined'')
          \<and> current_prices (snd (updateCommodityPrice cfg e d c pu pz tb ts)) c \<noteq> None
          \<and> length (price_history (snd (updateCommodityPrice cfg e d c pu pz tb ts)))
              = Suc (length (price_history d))
          \<and> (\<not> run_insert_fails e \<longrightarrow>
               (\<exists>run. price_update_runs (snd (updateCommodityPrice cfg e d c pu pz tb ts))
                         = price_update_runs d @ [run]
                      \<and> run_trigger_source run = ts \<and> status run = Success)))"
  using updateCommodityPrice_no_success [of cfg e d c pu pz tb ts]
    updateCommodityPrice_writes [of cfg e d _ _ pu pz c tb ts]
  by blast

lemma rate_db_three:
  "getCurrencyRate default_config env_offline db_three ''ZAR'' ''USD'' =
     (Inr (Fin (54 / 1000)),
      db_three\<lparr>exchange_rates := [\<lparr>from_currency = ''ZAR'', to_currency = ''USD'',
                             rate = Fin (54 / 1000), recorded_at = 0, source = Fallback\<rparr>]\<rparr>)"
  by (rule rate_offline)
     (simp_all add: db_three_def db_empty_def env_offline_def)

text \<open>C3 at the input \<open>{priceUsd: 15}\<close> for commodity 1, with a working store.\<close>

theorem updateCommodityPrice_throws_witness:
  "fst (updateCommodityPrice default_config env_offline db_three 1 (Num (Fin 15)) Undefined None ManualSingle)
     = Inl (ReferenceError ''change24h is not defined'')
   \<and> current_prices (snd (updateCommodityPrice default_config env_offline db_three 1
        (Num (Fin 15)) Undefined None ManualSingle)) 1 \<noteq> None
   \<and> length (price_history (snd (updateCommodityPrice default_config env_offline db_three 1
        (Num (Fin 15)) Undefined None ManualSingle))) = 1
   \<and> (\<exists>run. price_update_runs (snd (updateCommodityPrice default_config env_offline db_three 1
        (Num (Fin 15)) Undefined None ManualSingle)) = [run]
        \<and> run_trigger_source run = ManualSingle \<and> status run = Success)"
proof -
  have e: "write_error env_offline 1 = None" "\<not> run_insert_fails env_offline"
    by (simp_all add: write_error_def env_offline_def)
  have p: "price_history db_three = []" "price_update_runs db_three = []"
    by (simp_all add: db_three_def db_empty_def)
  show ?thesis
    using updateCommodityPrice_throws [of default_config env_offline db_three 1 "Num (Fin 15)"
        Undefined None ManualSingle] rate_db_three e p
    by simp
qed






end
